theory Spec2Isabelle
  imports Complex_Main
begin

section \<open>Razor: sequence ingestion, validation and annotation pipeline\<close>

text \<open>
  A shallow embedding of \<^verbatim>\<open>razor.py\<close>. Python strings are modelled as \<^typ>\<open>string\<close>,
  one \<^typ>\<open>char\<close> per code point; the model covers ASCII text, which is what a FASTA
  file holds. Python's unbounded integers are \<^typ>\<open>int\<close>. Exceptions are values of
  the type \<open>py_error\<close>, and a function that can raise returns a sum with the error on
  the left.
\<close>

subsection \<open>Python string primitives\<close>

text \<open>
  \<^verbatim>\<open>str.upper()\<close> on ASCII: each of the letters \<^verbatim>\<open>a\<close> to \<^verbatim>\<open>z\<close> becomes its capital,
  every other character is kept.
\<close>

definition ascii_lowercase :: "char list" where
  "ascii_lowercase = ''abcdefghijklmnopqrstuvwxyz''"

definition ascii_uppercase :: "char list" where
  "ascii_uppercase = ''ABCDEFGHIJKLMNOPQRSTUVWXYZ''"

definition py_upper_char :: "char \<Rightarrow> char" where
  "py_upper_char c =
     (case map_of (zip ascii_lowercase ascii_uppercase) c of Some u \<Rightarrow> u | None \<Rightarrow> c)"

definition py_upper :: "string \<Rightarrow> string" where
  "py_upper s = map py_upper_char s"

text \<open>
  \<^verbatim>\<open>s[:k]\<close>: for \<open>k \<ge> 0\<close> the first \<open>k\<close> items; for \<open>k < 0\<close> all but the last \<open>-k\<close>
  items (none when the string is shorter than that).
\<close>

definition py_slice_to :: "int \<Rightarrow> 'a list \<Rightarrow> 'a list" where
  "py_slice_to k s = (if 0 \<le> k then take (nat k) s else take (length s - nat (- k)) s)"

text \<open>
  \<^verbatim>\<open>s.replace("U", "C")\<close> on a Python string: the pattern is one character, so every
  occurrence of it is rewritten in place.
\<close>

definition replace_U_C :: "string \<Rightarrow> string" where
  "replace_U_C s = map (\<lambda>c. if c = CHR ''U'' then CHR ''C'' else c) s"

subsection \<open>The alphabet validator \<^verbatim>\<open>check_seq\<close>\<close>

text \<open>The character class of the regular expression \<^verbatim>\<open>^[RKNDQEHPYWSTGAMCFLVI]*$\<close>.\<close>

definition valid_aa :: "char list" where
  "valid_aa = ''RKNDQEHPYWSTGAMCFLVI''"

text \<open>
  \<^verbatim>\<open>re.match(valid_aa, seq)\<close>. The starred class is greedy and consumes the longest
  prefix of class characters; \<^verbatim>\<open>$\<close> (without \<^verbatim>\<open>re.MULTILINE\<close>) then succeeds at the end
  of the string, and also just before a line feed that is the last character of the
  string. A shorter prefix cannot help: the position after it holds a class
  character, which is neither the end nor a line feed. So the match succeeds exactly
  when what follows the longest class prefix is empty or one final line feed.
\<close>

definition re_match_valid_aa :: "string \<Rightarrow> bool" where
  "re_match_valid_aa s =
     (let rest = dropWhile (\<lambda>c. c \<in> set valid_aa) s in rest = [] \<or> rest = [CHR 0x0A])"

definition check_seq :: "string \<Rightarrow> int \<Rightarrow> bool" where
  "check_seq seq max_scan =
     re_match_valid_aa (replace_U_C (py_slice_to (max_scan + 15) (py_upper seq)))"

subsection \<open>Errors\<close>

text \<open>
  The exceptions the program raises or handles. \<open>SystemExit\<close> is how \<^verbatim>\<open>argparse\<close> leaves
  the program on a rejected command line; \<open>TypeError\<close> is the one exception
  \<^verbatim>\<open>razor_predict\<close> suppresses; \<open>OtherError\<close> stands for every other exception class.
\<close>

datatype py_error =
    ArgumentTypeError string
  | SystemExit string
  | TypeError
  | OtherError string

subsection \<open>The record parser \<^verbatim>\<open>fasta_reader\<close>\<close>

text \<open>
  A cell of a pandas column of dtype object: a string, the missing value \<^verbatim>\<open>NaN\<close>, or
  Python's \<^verbatim>\<open>None\<close>.

  \<^verbatim>\<open>pandas.read_csv(file, sep='>', lineterminator='>', header=None)\<close> is library code: the
  model takes its outcome as given, a function from the file's path to either the
  exception it raises or column \<^verbatim>\<open>0\<close> of the frame it returns, one cell per block of the
  file between two record markers (\<^verbatim>\<open>NaN\<close> where pandas reads the block as a missing
  value).
\<close>

datatype cell = Str string | NaN | PyNone

type_synonym read_csv = "string \<Rightarrow> py_error + cell list"

definition LF :: char where
  "LF = CHR 0x0A"

definition has_newline :: "cell \<Rightarrow> bool" where
  "has_newline c = (case c of Str s \<Rightarrow> LF \<in> set s | _ \<Rightarrow> False)"

text \<open>
  \<^verbatim>\<open>fasta_df[0].str.split('\n', n=1, expand=True)\<close>, one row: the text before the first
  line feed and the text after it; \<^verbatim>\<open>None\<close> in the second column when the block has no
  line feed; \<^verbatim>\<open>NaN\<close> in both columns when the cell is missing.
\<close>

definition str_split_n1 :: "cell \<Rightarrow> cell \<times> cell" where
  "str_split_n1 c =
     (case c of
        Str s \<Rightarrow>
          (if LF \<in> set s
           then (Str (takeWhile (\<lambda>x. x \<noteq> LF) s), Str (tl (dropWhile (\<lambda>x. x \<noteq> LF) s)))
           else (Str s, PyNone))
      | _ \<Rightarrow> (NaN, NaN))"

text \<open>\<^verbatim>\<open>Series.replace('\n', '', regex=True)\<close>: every line feed of a string cell is removed.\<close>

definition replace_newlines :: "cell \<Rightarrow> cell" where
  "replace_newlines c = (case c of Str s \<Rightarrow> Str (filter (\<lambda>x. x \<noteq> LF) s) | _ \<Rightarrow> c)"

text \<open>\<^verbatim>\<open>Series.astype(str)\<close>: \<^verbatim>\<open>str(None)\<close> is \<^verbatim>\<open>'None'\<close> and \<^verbatim>\<open>str(nan)\<close> is \<^verbatim>\<open>'nan'\<close>.\<close>

definition astype_str :: "cell \<Rightarrow> string" where
  "astype_str c = (case c of Str s \<Rightarrow> s | NaN \<Rightarrow> ''nan'' | PyNone \<Rightarrow> ''None'')"

text \<open>
  \<^verbatim>\<open>Series.replace('U', 'C')\<close>, called on the Series that \<^verbatim>\<open>.str.upper()\<close> returns and
  without \<^verbatim>\<open>regex=True\<close>: it replaces a cell whose whole value is \<^verbatim>\<open>'U'\<close>, and leaves
  every other cell as it is.
\<close>

definition series_replace_U_C :: "string \<Rightarrow> string" where
  "series_replace_U_C s = (if s = ''U'' then ''C'' else s)"

text \<open>Lines 52 and 53: the chain that computes the column \<^verbatim>\<open>Sequence\<close>, for one cell.\<close>

definition process_sequence :: "int \<Rightarrow> cell \<Rightarrow> string" where
  "process_sequence max_scan c =
     py_slice_to (max_scan + 15)
       (series_replace_U_C (py_upper (astype_str (replace_newlines c))))"

record row =
  Accession :: cell
  Sequence :: string

definition parse_row :: "int \<Rightarrow> cell \<Rightarrow> row" where
  "parse_row max_scan c =
     (case str_split_n1 c of
        (a, s) \<Rightarrow> \<lparr>Accession = a, Sequence = process_sequence max_scan s\<rparr>)"

text \<open>\<^verbatim>\<open>DataFrame.dropna()\<close> drops a row with a missing value in any column.\<close>

definition isna :: "cell \<Rightarrow> bool" where
  "isna c = (case c of Str s \<Rightarrow> False | _ \<Rightarrow> True)"

text \<open>
  \<^verbatim>\<open>fasta_reader(file, max_scan)\<close>. Every exception inside the \<^verbatim>\<open>try\<close> becomes the
  \<^verbatim>\<open>ArgumentTypeError\<close> of line 67: \<^verbatim>\<open>read_csv\<close> raising, and the assignment of line 50,
  which raises when the split yields one column only, that is when no block holds a
  line feed (an empty frame and a frame of missing cells only are among these).
  The validator is called as \<^verbatim>\<open>check_seq(x)\<close>, so with its default \<^verbatim>\<open>max_scan=80\<close>.
  The result is the frame returned and, when line 63 prints, the number printed.
\<close>

definition fasta_reader :: "read_csv \<Rightarrow> string \<Rightarrow> int \<Rightarrow> py_error + (row list \<times> nat option)" where
  "fasta_reader read file max_scan =
     (case read file of
        Inl e \<Rightarrow> Inl (ArgumentTypeError ''Something is wrong with the fasta file.'')
      | Inr cells \<Rightarrow>
          if \<not> list_ex has_newline cells
          then Inl (ArgumentTypeError ''Something is wrong with the fasta file.'')
          else
            let fasta_df = map (parse_row max_scan) cells;
                total_seq = length fasta_df;
                checked = filter (\<lambda>r. check_seq (Sequence r) 80) fasta_df;
                nonempty = filter (\<lambda>r. Sequence r \<noteq> '''' \<and> Sequence r \<noteq> ''NONE'') checked;
                final_df = filter (\<lambda>r. \<not> isna (Accession r)) nonempty;
                remained_seq = length final_df
            in Inr (final_df,
                    if total_seq \<noteq> remained_seq then Some (total_seq - remained_seq) else None))"

subsection \<open>Command line: \<^verbatim>\<open>check_max_scan\<close> and \<^verbatim>\<open>get_args\<close>\<close>

text \<open>
  \<^verbatim>\<open>int(m)\<close> for a string: white space around the literal is skipped, then an optional
  sign and decimal digits, where one underscore may stand between two digits.
  \<open>None\<close> is the \<^verbatim>\<open>ValueError\<close>. The white space \<^verbatim>\<open>int\<close> skips is the tab, the line feed,
  the vertical tab, the form feed, the carriage return and the space; the separators
  \<^verbatim>\<open>0x1C\<close> to \<^verbatim>\<open>0x1F\<close> are not skipped.
\<close>

definition py_isspace :: "char \<Rightarrow> bool" where
  "py_isspace c =
     (c \<in> set [CHR 0x09, CHR 0x0A, CHR 0x0B, CHR 0x0C, CHR 0x0D, CHR 0x20])"

definition py_strip :: "string \<Rightarrow> string" where
  "py_strip s = rev (dropWhile py_isspace (rev (dropWhile py_isspace s)))"

definition digit_of :: "char \<Rightarrow> nat option" where
  "digit_of c = map_of (zip ''0123456789'' [0, 1, 2, 3, 4, 5, 6, 7, 8, 9]) c"

fun py_digits :: "nat \<Rightarrow> string \<Rightarrow> nat option" where
  "py_digits acc [] = Some acc"
| "py_digits acc (c # cs) =
     (case digit_of c of
        Some d \<Rightarrow> py_digits (10 * acc + d) cs
      | None \<Rightarrow>
          if c = CHR ''_''
          then (case cs of
                  [] \<Rightarrow> None
                | d # ds \<Rightarrow> (case digit_of d of None \<Rightarrow> None | Some x \<Rightarrow> py_digits acc cs))
          else None)"

definition py_nat :: "string \<Rightarrow> nat option" where
  "py_nat s =
     (case s of
        [] \<Rightarrow> None
      | c # cs \<Rightarrow> (case digit_of c of None \<Rightarrow> None | Some d \<Rightarrow> py_digits 0 s))"

definition py_int :: "string \<Rightarrow> int option" where
  "py_int s =
     (case py_strip s of
        [] \<Rightarrow> None
      | c # cs \<Rightarrow>
          if c = CHR ''-'' then map_option (\<lambda>n. - int n) (py_nat cs)
          else if c = CHR ''+'' then map_option int (py_nat cs)
          else map_option int (py_nat (c # cs)))"

definition check_max_scan :: "string \<Rightarrow> py_error + int" where
  "check_max_scan m =
     (case py_int m of
        None \<Rightarrow> Inl (ArgumentTypeError ''Max scan should be an integer.'')
      | Some v \<Rightarrow>
          if v < 16 then Inl (ArgumentTypeError ''Max scan should be greater than 16.'')
          else Inr v)"

text \<open>
  The command line as \<^verbatim>\<open>argparse\<close> sees it: the text given for each option, if any, and
  whether \<^verbatim>\<open>--quiet\<close> is present.
\<close>

record cmdline =
  opt_path :: "string option"
  opt_output :: "string option"
  opt_max_scan :: "string option"
  opt_ncores :: "string option"
  opt_quiet :: bool

text \<open>The namespace \<^verbatim>\<open>parse_args()\<close> returns.\<close>

record args =
  args_path :: string
  args_output :: string
  args_max_scan :: int
  args_ncores :: int
  args_quiet :: bool

text \<open>
  \<^verbatim>\<open>get_args()\<close>. \<^verbatim>\<open>argparse\<close> applies an option's \<^verbatim>\<open>type\<close> to the text given for it, and
  takes a default that is not a string as it is. Where the \<^verbatim>\<open>type\<close> raises
  \<^verbatim>\<open>ArgumentTypeError\<close>, \<^verbatim>\<open>ValueError\<close> or \<^verbatim>\<open>TypeError\<close> it prints the usage and leaves with
  \<^verbatim>\<open>SystemExit\<close>; so it does when the required \<^verbatim>\<open>--path\<close> is missing, which it checks
  after the options. \<^verbatim>\<open>--max_scan\<close> has \<^verbatim>\<open>type=check_max_scan\<close> and default 80;
  \<^verbatim>\<open>--ncores\<close> has \<^verbatim>\<open>type=int\<close>, nothing more, and the default
  \<^verbatim>\<open>multiprocessing.cpu_count() // 2\<close>. Options are checked here in the order of their
  declaration; on a command line with several bad options \<^verbatim>\<open>argparse\<close> reports the first
  one given.
\<close>

definition get_args :: "nat \<Rightarrow> cmdline \<Rightarrow> py_error + args" where
  "get_args cpu_count cl =
     (case (case opt_max_scan cl of None \<Rightarrow> Inr 80 | Some m \<Rightarrow> check_max_scan m) of
        Inl e \<Rightarrow>
          Inl (SystemExit (''argument -m/--max_scan: '' @
                 (case e of ArgumentTypeError msg \<Rightarrow> msg | _ \<Rightarrow> [])))
      | Inr max_scan \<Rightarrow>
          (case (case opt_ncores cl of
                   None \<Rightarrow> Some (int (cpu_count div 2))
                 | Some n \<Rightarrow> py_int n) of
             None \<Rightarrow> Inl (SystemExit ''argument -n/--ncores: invalid int value'')
           | Some ncores \<Rightarrow>
               (case opt_path cl of
                  None \<Rightarrow> Inl (SystemExit ''the following arguments are required: -p/--path'')
                | Some p \<Rightarrow>
                    Inr \<lparr>args_path = p,
                         args_output = (case opt_output cl of None \<Rightarrow> ''result'' | Some out \<Rightarrow> out),
                         args_max_scan = max_scan,
                         args_ncores = ncores,
                         args_quiet = opt_quiet cl\<rparr>)))"

subsection \<open>The classifier object\<close>

text \<open>
  The attributes of a \<^verbatim>\<open>detector.RAZOR\<close> object that \<^verbatim>\<open>razor_predict\<close> reads. Scores are
  floats in the program; the pipeline does no arithmetic on them apart from
  \<^verbatim>\<open>np.around\<close>, which the model takes as a parameter, so they are modelled as
  \<^typ>\<open>real\<close> values that are only passed on. \<^verbatim>\<open>final_cleavage\<close> is an array whose first
  item, if there is one, is read.
\<close>

record razor_obj =
  obj_seq :: string
  obj_max_scan :: int
  y_scores :: "real list"
  preds :: "int list"
  c_scores :: "real list"
  cleavage_sites :: "int list"
  final_cleavage :: "int list"
  final_score_sp :: real
  fungi_scores :: "real list"
  fungi_preds :: "int list"
  final_score_fungi :: real
  toxin_scores :: "real list"
  toxin_preds :: "int list"
  final_score_toxin :: real

text \<open>What the primary stage computes, and what each optional stage computes.\<close>

record primary_result =
  res_y_scores :: "real list"
  res_preds :: "int list"
  res_c_scores :: "real list"
  res_cleavage_sites :: "int list"
  res_final_cleavage :: "int list"
  res_final_score_sp :: real

record stage_result =
  res_scores :: "real list"
  res_stage_preds :: "int list"
  res_final_score :: real

text \<open>
  The scoring models themselves are opaque: three functions of the sequence and the
  scan window, each of which may raise.
\<close>

record classifier =
  primary :: "string \<Rightarrow> int \<Rightarrow> py_error + primary_result"
  secondary :: "string \<Rightarrow> int \<Rightarrow> py_error + stage_result"
  tertiary :: "string \<Rightarrow> int \<Rightarrow> py_error + stage_result"

text \<open>
  Modelled from the spec: the class \<^verbatim>\<open>RAZOR\<close> of \<^verbatim>\<open>libs/detector.py\<close> is not among the
  sources. The spec's call contract says that where an optional stage is inapplicable
  for an input, fields 7 to 12 of the bundle take defined default values, empty
  sequences and a zero aggregate, and that the source suppresses one specific error
  type around those stages. Accordingly a new object holds these defaults, an
  inapplicable stage raises \<open>TypeError\<close>, and a stage that raises leaves the object as it
  was.
\<close>

definition RAZOR :: "string \<Rightarrow> int \<Rightarrow> razor_obj" where
  "RAZOR seq max_scan =
     \<lparr>obj_seq = seq, obj_max_scan = max_scan,
      y_scores = [], preds = [], c_scores = [], cleavage_sites = [],
      final_cleavage = [], final_score_sp = 0,
      fungi_scores = [], fungi_preds = [], final_score_fungi = 0,
      toxin_scores = [], toxin_preds = [], final_score_toxin = 0\<rparr>"

text \<open>Modelled from the spec: the method \<^verbatim>\<open>RAZOR.predict\<close>, absent like its class.\<close>

definition predict :: "classifier \<Rightarrow> razor_obj \<Rightarrow> py_error + razor_obj" where
  "predict cl obj =
     (case primary cl (obj_seq obj) (obj_max_scan obj) of
        Inl e \<Rightarrow> Inl e
      | Inr p \<Rightarrow>
          Inr (obj\<lparr>y_scores := res_y_scores p, preds := res_preds p,
                   c_scores := res_c_scores p, cleavage_sites := res_cleavage_sites p,
                   final_cleavage := res_final_cleavage p,
                   final_score_sp := res_final_score_sp p\<rparr>))"

text \<open>Modelled from the spec: the method \<^verbatim>\<open>RAZOR.fungi\<close>, absent like its class.\<close>

definition fungi :: "classifier \<Rightarrow> razor_obj \<Rightarrow> py_error + razor_obj" where
  "fungi cl obj =
     (case secondary cl (obj_seq obj) (obj_max_scan obj) of
        Inl e \<Rightarrow> Inl e
      | Inr r \<Rightarrow>
          Inr (obj\<lparr>fungi_scores := res_scores r, fungi_preds := res_stage_preds r,
                   final_score_fungi := res_final_score r\<rparr>))"

text \<open>Modelled from the spec: the method \<^verbatim>\<open>RAZOR.toxin\<close>, absent like its class.\<close>

definition toxin :: "classifier \<Rightarrow> razor_obj \<Rightarrow> py_error + razor_obj" where
  "toxin cl obj =
     (case tertiary cl (obj_seq obj) (obj_max_scan obj) of
        Inl e \<Rightarrow> Inl e
      | Inr r \<Rightarrow>
          Inr (obj\<lparr>toxin_scores := res_scores r, toxin_preds := res_stage_preds r,
                   final_score_toxin := res_final_score r\<rparr>))"

subsection \<open>The per-record prediction \<^verbatim>\<open>razor_predict\<close>\<close>

text \<open>
  The tuple \<^verbatim>\<open>razor_predict\<close> returns, its twelve fields named as \<^verbatim>\<open>main\<close> names the
  columns they become.
\<close>

record analysis =
  Y_score :: "real list"
  SP_Prediction :: "int list"
  Max_C :: "real list"
  Probable_Cleavage_after :: "int list"
  Cleavage_after_residue :: int
  SP_score :: real
  Fungi_Scores :: "real list"
  Fungi_Prediction :: "int list"
  Fungi_scores_Median :: real
  Toxin_Scores :: "real list"
  Toxin_Prediction :: "int list"
  Toxin_scores_Median :: real

text \<open>
  Lines 85 to 91: the object is built and \<^verbatim>\<open>predict\<close> runs outside any handler; \<^verbatim>\<open>fungi\<close>
  and \<^verbatim>\<open>toxin\<close> run in one \<^verbatim>\<open>try\<close> whose handler passes on \<open>TypeError\<close> only, so a
  \<open>TypeError\<close> of \<^verbatim>\<open>fungi\<close> also skips \<^verbatim>\<open>toxin\<close>, and any other exception leaves the
  function.
\<close>

definition run_stages :: "classifier \<Rightarrow> string \<Rightarrow> int \<Rightarrow> py_error + razor_obj" where
  "run_stages cl seq max_scan =
     (case predict cl (RAZOR seq max_scan) of
        Inl e \<Rightarrow> Inl e
      | Inr obj1 \<Rightarrow>
          (case fungi cl obj1 of
             Inl e \<Rightarrow> if e = TypeError then Inr obj1 else Inl e
           | Inr obj2 \<Rightarrow>
               (case toxin cl obj2 of
                  Inl e \<Rightarrow> if e = TypeError then Inr obj2 else Inl e
                | Inr obj3 \<Rightarrow> Inr obj3)))"

text \<open>
  Lines 92 to 109. \<^verbatim>\<open>final_cleavage.tolist()[0]\<close> raises on an empty array, and the
  handler then sets \<^verbatim>\<open>cleav = 0\<close>. \<open>around\<close> is \<^verbatim>\<open>np.around\<close>, applied to \<^verbatim>\<open>y_scores\<close> item
  by item and to \<^verbatim>\<open>final_score_sp\<close>, with 2 decimals.
\<close>

definition unpack :: "(real \<Rightarrow> int \<Rightarrow> real) \<Rightarrow> razor_obj \<Rightarrow> analysis" where
  "unpack around newObj =
     (let cleav = (case final_cleavage newObj of [] \<Rightarrow> 0 | c # cs \<Rightarrow> c) in
      \<lparr>Y_score = map (\<lambda>y. around y 2) (y_scores newObj),
       SP_Prediction = preds newObj,
       Max_C = c_scores newObj,
       Probable_Cleavage_after = cleavage_sites newObj,
       Cleavage_after_residue = cleav,
       SP_score = around (final_score_sp newObj) 2,
       Fungi_Scores = fungi_scores newObj,
       Fungi_Prediction = fungi_preds newObj,
       Fungi_scores_Median = final_score_fungi newObj,
       Toxin_Scores = toxin_scores newObj,
       Toxin_Prediction = toxin_preds newObj,
       Toxin_scores_Median = final_score_toxin newObj\<rparr>)"

definition razor_predict ::
    "classifier \<Rightarrow> (real \<Rightarrow> int \<Rightarrow> real) \<Rightarrow> string \<Rightarrow> int \<Rightarrow> py_error + analysis" where
  "razor_predict cl around seq max_scan =
     (case run_stages cl seq max_scan of
        Inl e \<Rightarrow> Inl e
      | Inr newObj \<Rightarrow> Inr (unpack around newObj))"

subsection \<open>The program: \<^verbatim>\<open>main\<close> and the script\<close>

text \<open>
  What the program does to the world, in order: the worker pool is initialised, the
  directory is listed, a file is read, the count of removed records is printed, a
  table is written.
\<close>

datatype io_event =
    Initialize int
  | Glob string
  | ReadCsv string
  | PrintRemoved nat
  | ToCsv string string "(row \<times> analysis) list"

text \<open>
  \<^verbatim>\<open>Series.progress_apply(f)\<close>: \<^verbatim>\<open>f\<close> on each item in order; an exception of \<^verbatim>\<open>f\<close> ends it.
\<close>

fun progress_apply :: "('a \<Rightarrow> py_error + 'b) \<Rightarrow> 'a list \<Rightarrow> py_error + 'b list" where
  "progress_apply f [] = Inr []"
| "progress_apply f (x # xs) =
     (case f x of
        Inl e \<Rightarrow> Inl e
      | Inr y \<Rightarrow> (case progress_apply f xs of Inl e \<Rightarrow> Inl e | Inr ys \<Rightarrow> Inr (y # ys)))"

text \<open>
  The world the program runs in: the number of cores, the sorted \<^verbatim>\<open>*.fa\<close> files of a
  directory, what \<^verbatim>\<open>read_csv\<close> yields for a file, the classifier, \<^verbatim>\<open>np.around\<close>, and
  \<^verbatim>\<open>parallel_apply\<close> of the library pandarallel for a number of workers. The last is
  library code that runs worker processes; the model takes it as given and says
  nothing about it.
\<close>

record world =
  cpu_count :: nat
  glob_fa :: "string \<Rightarrow> string list"
  read_csv :: read_csv
  detector :: classifier
  np_around :: "real \<Rightarrow> int \<Rightarrow> real"
  parallel_apply :: "int \<Rightarrow> (string \<Rightarrow> py_error + analysis) \<Rightarrow> string list \<Rightarrow> py_error + analysis list"

text \<open>
  \<^verbatim>\<open>main(path, output_path, max_scan, ncores)\<close>. An exception of \<^verbatim>\<open>fasta_reader\<close> or of a
  prediction leaves \<^verbatim>\<open>main\<close>. Line 154 assigns twelve columns from the frame built of
  the bundles; for a table with no row that frame has no column and the assignment
  raises \<^verbatim>\<open>ValueError\<close>.
\<close>

definition main :: "world \<Rightarrow> string \<Rightarrow> string \<Rightarrow> int \<Rightarrow> int \<Rightarrow> io_event list \<times> (py_error + unit)" where
  "main w path output_path max_scan ncores =
     (case fasta_reader (read_csv w) path max_scan of
        Inl e \<Rightarrow> ([ReadCsv path], Inl e)
      | Inr (df, removed) \<Rightarrow>
          (let printed = (case removed of None \<Rightarrow> [] | Some n \<Rightarrow> [PrintRemoved n]);
               f = (\<lambda>x. razor_predict (detector w) (np_around w) x max_scan);
               analysis = (if ncores = 1 then progress_apply f (map Sequence df)
                           else parallel_apply w ncores f (map Sequence df))
           in case analysis of
                Inl e \<Rightarrow> (ReadCsv path # printed, Inl e)
              | Inr bundles \<Rightarrow>
                  if df = [] then (ReadCsv path # printed, Inl (OtherError ''ValueError''))
                  else (ReadCsv path # printed @ [ToCsv output_path path (zip df bundles)],
                        Inr ())))"

text \<open>The loop over the files: an exception of \<^verbatim>\<open>main\<close> ends the run.\<close>

fun run_files :: "world \<Rightarrow> args \<Rightarrow> string list \<Rightarrow> io_event list \<times> (py_error + unit)" where
  "run_files w a [] = ([], Inr ())"
| "run_files w a (p # ps) =
     (case main w p (args_output a) (args_max_scan a) (args_ncores a) of
        (ev, Inl e) \<Rightarrow> (ev, Inl e)
      | (ev, Inr u) \<Rightarrow> (case run_files w a ps of (ev', r) \<Rightarrow> (ev @ ev', r)))"

text \<open>
  The script under \<^verbatim>\<open>if __name__ == '__main__'\<close>: the arguments are parsed first; only
  then the pool is initialised, the directory listed and the files processed.
\<close>

definition script :: "world \<Rightarrow> cmdline \<Rightarrow> io_event list \<times> (py_error + unit)" where
  "script w cl =
     (case get_args (cpu_count w) cl of
        Inl e \<Rightarrow> ([], Inl e)
      | Inr a \<Rightarrow>
          (case run_files w a (glob_fa w (args_path a)) of
             (ev, r) \<Rightarrow> (Initialize (args_ncores a) # Glob (args_path a) # ev, r)))"

subsection \<open>Predicates of the properties\<close>

text \<open>
  The normal form the specification speaks of: the string in capitals with every
  \<^verbatim>\<open>U\<close> rewritten to \<^verbatim>\<open>C\<close>.
\<close>

definition normalized :: "string \<Rightarrow> string" where
  "normalized s = replace_U_C (py_upper s)"

text \<open>
  The condition under which \<^verbatim>\<open>fasta_reader\<close> keeps the row of a cell, read off lines 57
  to 60.
\<close>

definition survives :: "int \<Rightarrow> cell \<Rightarrow> bool" where
  "survives max_scan c =
     (let r = parse_row max_scan c
      in check_seq (Sequence r) 80 \<and> Sequence r \<noteq> [] \<and> Sequence r \<noteq> ''NONE'' \<and>
         \<not> isna (Accession r))"

text \<open>
  The drop conditions as the specification lists them: the validator rejects the
  processed sequence, or the processed sequence is empty, or it is \<^verbatim>\<open>NONE\<close>, or the
  identifier or the sequence is absent. The validator is the one of the
  specification: it is applied with the window of the run, \<open>max_scan + 15\<close>, the same
  as truncation, and so judges the whole processed sequence.
\<close>

definition dropped :: "int \<Rightarrow> cell \<Rightarrow> bool" where
  "dropped max_scan c =
     (case str_split_n1 c of
        (ident, sq) \<Rightarrow>
          (let p = process_sequence max_scan sq
           in \<not> check_seq p max_scan \<or> p = '''' \<or> p = ''NONE'' \<or> isna ident \<or> isna sq))"

text \<open>
  A command line the argument parser rejects for its scan window: the text given is
  not an integer, or the integer is below 16. One it rejects for its worker count:
  the text given is not an integer.
\<close>

definition rejected_max_scan :: "cmdline \<Rightarrow> bool" where
  "rejected_max_scan cl =
     (case opt_max_scan cl of
        None \<Rightarrow> False
      | Some m \<Rightarrow> (case py_int m of None \<Rightarrow> True | Some v \<Rightarrow> v < 16))"

definition rejected_ncores :: "cmdline \<Rightarrow> bool" where
  "rejected_ncores cl =
     (case opt_ncores cl of None \<Rightarrow> False | Some n \<Rightarrow> py_int n = None)"

subsection \<open>Concrete inputs\<close>

text \<open>A classifier whose secondary stage is inapplicable, and a rounding function.\<close>

definition quiet_classifier :: classifier where
  "quiet_classifier =
     \<lparr>primary = (\<lambda>s m. Inr \<lparr>res_y_scores = [2 / 3, 1 / 2], res_preds = [0, 1],
                              res_c_scores = [3 / 8], res_cleavage_sites = [21],
                              res_final_cleavage = [], res_final_score_sp = 2 / 3\<rparr>),
      secondary = (\<lambda>s m. Inl TypeError),
      tertiary = (\<lambda>s m. Inr \<lparr>res_scores = [1 / 3], res_stage_preds = [1],
                               res_final_score = 1 / 3\<rparr>)\<rparr>"

definition round_to :: "real \<Rightarrow> int \<Rightarrow> real" where
  "round_to x d = real_of_int (round (x * 10 ^ nat d)) / 10 ^ nat d"

text \<open>A machine of eight cores and a directory with no \<^verbatim>\<open>*.fa\<close> file.\<close>

definition empty_world :: world where
  "empty_world =
     \<lparr>cpu_count = 8, glob_fa = (\<lambda>d. []), read_csv = (\<lambda>f. Inr []),
      detector = quiet_classifier, np_around = round_to,
      parallel_apply = (\<lambda>n f xs. progress_apply f xs)\<rparr>"

text \<open>The command line \<^verbatim>\<open>-p seqs -n 0\<close>.\<close>

definition zero_workers :: cmdline where
  "zero_workers =
     \<lparr>opt_path = Some ''seqs'', opt_output = None, opt_max_scan = None,
      opt_ncores = Some ''0'', opt_quiet = False\<rparr>"

text \<open>The command line \<^verbatim>\<open>-p seqs -m 15\<close>.\<close>

definition small_window :: cmdline where
  "small_window =
     \<lparr>opt_path = Some ''seqs'', opt_output = None, opt_max_scan = Some ''15'',
      opt_ncores = None, opt_quiet = False\<rparr>"

text \<open>
  A file of ten records, three of which fail validation (the residues \<^verbatim>\<open>X\<close>, \<^verbatim>\<open>1\<close> and
  \<^verbatim>\<open>-\<close>), and the seven rows that survive.
\<close>

definition cells10 :: "cell list" where
  "cells10 =
     [Str (''r1'' @ [LF] @ ''ACDE''), Str (''r2'' @ [LF] @ ''ACXE''),
      Str (''r3'' @ [LF] @ ''MKV''), Str (''r4'' @ [LF] @ ''mkvl''),
      Str (''r5'' @ [LF] @ ''AC1''), Str (''r6'' @ [LF] @ ''GG'' @ [LF] @ ''TT''),
      Str (''r7'' @ [LF] @ ''WY''), Str (''r8'' @ [LF] @ ''A-C''),
      Str (''r9'' @ [LF] @ ''U''), Str (''r10'' @ [LF] @ ''LLLL'')]"

definition rows7 :: "row list" where
  "rows7 = [\<lparr>Accession = Str ''r1'', Sequence = ''ACDE''\<rparr>,
           \<lparr>Accession = Str ''r3'', Sequence = ''MKV''\<rparr>,
           \<lparr>Accession = Str ''r4'', Sequence = ''MKVL''\<rparr>,
           \<lparr>Accession = Str ''r6'', Sequence = ''GGTT''\<rparr>,
           \<lparr>Accession = Str ''r7'', Sequence = ''WY''\<rparr>,
           \<lparr>Accession = Str ''r9'', Sequence = ''C''\<rparr>,
           \<lparr>Accession = Str ''r10'', Sequence = ''LLLL''\<rparr>]"

text \<open>A classifier whose three stages all apply.\<close>

definition full_classifier :: classifier where
  "full_classifier =
     \<lparr>primary = (\<lambda>s m. Inr \<lparr>res_y_scores = [2 / 3, 1 / 2], res_preds = [0, 1],
                              res_c_scores = [3 / 8], res_cleavage_sites = [21, 25],
                              res_final_cleavage = [21], res_final_score_sp = 2 / 3\<rparr>),
      secondary = (\<lambda>s m. Inr \<lparr>res_scores = [2 / 3], res_stage_preds = [1],
                                res_final_score = 2 / 3\<rparr>),
      tertiary = (\<lambda>s m. Inr \<lparr>res_scores = [1 / 3], res_stage_preds = [0],
                               res_final_score = 1 / 3\<rparr>)\<rparr>"

text \<open>
  A record of 96 residues, 95 times \<^verbatim>\<open>A\<close> and then \<^verbatim>\<open>X\<close>: longer than the validator's
  default window of 95, shorter than the 115 characters a scan window of 100 keeps.
\<close>

definition long_record :: cell where
  "long_record = Str (''id'' @ [LF] @ replicate 95 (CHR ''A'') @ ''X'')"

section \<open>Properties\<close>

subsection \<open>The validator\<close>

lemma py_upper_char_idem: "py_upper_char (py_upper_char c) = py_upper_char c"
  by (simp add: py_upper_char_def ascii_lowercase_def ascii_uppercase_def)

lemma py_upper_idem: "py_upper (py_upper s) = py_upper s"
  by (simp add: py_upper_def py_upper_char_idem)

lemma py_upper_replace_U_C: "py_upper (replace_U_C (py_upper s)) = replace_U_C (py_upper s)"
proof -
  have "py_upper_char (if py_upper_char c = CHR ''U'' then CHR ''C'' else py_upper_char c)
        = (if py_upper_char c = CHR ''U'' then CHR ''C'' else py_upper_char c)" for c
  proof (cases "py_upper_char c = CHR ''U''")
    case True
    then show ?thesis
      by (simp add: py_upper_char_def ascii_lowercase_def ascii_uppercase_def)
  next
    case False
    then show ?thesis by (simp add: py_upper_char_idem)
  qed
  then show ?thesis by (simp add: py_upper_def replace_U_C_def)
qed

lemma py_slice_to_map: "py_slice_to k (map f s) = map f (py_slice_to k s)"
  by (simp add: py_slice_to_def take_map)

lemma replace_U_C_slice: "replace_U_C (py_slice_to k s) = py_slice_to k (replace_U_C s)"
  by (simp add: replace_U_C_def py_slice_to_map)

lemma replace_U_C_idem: "replace_U_C (replace_U_C s) = replace_U_C s"
  by (simp add: replace_U_C_def)

lemma check_seq_Nil: "check_seq [] k"
  by (simp add: check_seq_def re_match_valid_aa_def replace_U_C_def py_slice_to_def py_upper_def)

text \<open>
  On a string without a line feed that is already in capitals, holds no \<^verbatim>\<open>U\<close> and fits
  the window, the validator decides membership in the alphabet.
\<close>

lemma check_seq_newline_free:
  assumes "LF \<notin> set s" and "py_upper s = s" and "replace_U_C s = s"
    and "int (length s) \<le> m + 15"
  shows "check_seq s m = (set s \<subseteq> set valid_aa)"
proof -
  have "py_slice_to (m + 15) s = s"
    using assms(4) by (simp add: py_slice_to_def)
  then have "check_seq s m = re_match_valid_aa s"
    using assms(2,3) by (simp add: check_seq_def)
  moreover have "dropWhile (\<lambda>c. c \<in> set valid_aa) s \<noteq> [LF]"
  proof
    assume "dropWhile (\<lambda>c. c \<in> set valid_aa) s = [LF]"
    then have "LF \<in> set (dropWhile (\<lambda>c. c \<in> set valid_aa) s)" by simp
    then have "LF \<in> set s" by (rule set_dropWhileD)
    with assms(1) show False by simp
  qed
  ultimately show ?thesis
    by (auto simp: re_match_valid_aa_def LF_def dropWhile_eq_Nil_conv)
qed

text \<open>
  C4, at the input \<^verbatim>\<open>"A\n"\<close> with \<^verbatim>\<open>max_scan = 80\<close>: the string is in capitals, holds no
  \<^verbatim>\<open>U\<close> and has 2 characters, so it fits the window of 95; its second character, the
  line feed, is not in the alphabet; and \<^verbatim>\<open>check_seq\<close> returns true, because \<^verbatim>\<open>$\<close> matches
  before a final line feed.
\<close>

theorem check_seq_trailing_newline:
  "check_seq [CHR ''A'', LF] 80 \<and> py_upper [CHR ''A'', LF] = [CHR ''A'', LF] \<and>
   replace_U_C [CHR ''A'', LF] = [CHR ''A'', LF] \<and>
   int (length [CHR ''A'', LF]) \<le> 80 + 15 \<and>
   \<not> list_all (\<lambda>c. c \<in> set valid_aa) [CHR ''A'', LF]"
  by (simp add: check_seq_def re_match_valid_aa_def valid_aa_def replace_U_C_def LF_def
      py_slice_to_def py_upper_def py_upper_char_def ascii_lowercase_def ascii_uppercase_def)

text \<open>
  C10: for every string \<open>s\<close> and every integer \<open>m\<close>, \<^verbatim>\<open>check_seq(s, m)\<close> equals \<^verbatim>\<open>check_seq\<close>
  of the normalized string, \<open>s\<close> in capitals with \<^verbatim>\<open>U\<close> replaced by \<^verbatim>\<open>C\<close>; so a string of
  lowercase letters or with \<^verbatim>\<open>U\<close> is judged on its normal form and can be admitted,
  as \<^verbatim>\<open>"acu"\<close> is, though none of its letters, nor \<^verbatim>\<open>U\<close>, is in the alphabet.
\<close>

theorem check_seq_normalizes:
  "check_seq s m = check_seq (normalized s) m \<and>
   check_seq ''acu'' 80 \<and> CHR ''a'' \<notin> set valid_aa \<and> CHR ''c'' \<notin> set valid_aa \<and>
   CHR ''u'' \<notin> set valid_aa \<and> CHR ''U'' \<notin> set valid_aa"
proof -
  have "check_seq (normalized s) m
        = re_match_valid_aa (replace_U_C (py_slice_to (m + 15) (replace_U_C (py_upper s))))"
    by (simp add: check_seq_def normalized_def py_upper_replace_U_C)
  also have "\<dots> = re_match_valid_aa (replace_U_C (py_slice_to (m + 15) (py_upper s)))"
    by (simp add: replace_U_C_slice [symmetric] replace_U_C_idem)
  finally have "check_seq s m = check_seq (normalized s) m"
    by (simp add: check_seq_def)
  moreover have "check_seq ''acu'' 80"
    by (simp add: check_seq_def re_match_valid_aa_def valid_aa_def replace_U_C_def
        py_slice_to_def py_upper_def py_upper_char_def ascii_lowercase_def ascii_uppercase_def)
  ultimately show ?thesis by (simp add: valid_aa_def)
qed

subsection \<open>The record parser\<close>

lemma fasta_reader_Inr:
  assumes "fasta_reader read file max_scan = Inr (final_df, removed)"
    and "read file = Inr cells"
  shows "final_df = map (parse_row max_scan) (filter (survives max_scan) cells)"
    and "removed = (if length cells \<noteq> length final_df
                    then Some (length cells - length final_df) else None)"
proof -
  have ne: "list_ex has_newline cells"
    using assms by (auto simp: fasta_reader_def split: if_splits)
  have "final_df = filter (\<lambda>r. \<not> isna (Accession r))
          (filter (\<lambda>r. Sequence r \<noteq> [] \<and> Sequence r \<noteq> ''NONE'')
            (filter (\<lambda>r. check_seq (Sequence r) 80) (map (parse_row max_scan) cells)))"
    using assms ne by (simp add: fasta_reader_def Let_def)
  also have "\<dots> = map (parse_row max_scan) (filter (survives max_scan) cells)"
    by (induction cells) (simp_all add: survives_def Let_def)
  finally show "final_df = map (parse_row max_scan) (filter (survives max_scan) cells)" .
  show "removed = (if length cells \<noteq> length final_df
                   then Some (length cells - length final_df) else None)"
    using assms ne by (auto simp: fasta_reader_def Let_def)
qed

lemma process_sequence_PyNone:
  "16 \<le> max_scan \<Longrightarrow> process_sequence max_scan PyNone = ''NONE''"
  by (simp add: process_sequence_def replace_newlines_def astype_str_def py_upper_def
      py_upper_char_def ascii_lowercase_def ascii_uppercase_def series_replace_U_C_def
      py_slice_to_def)

lemma check_seq_whole:
  assumes "int (length s) \<le> k + 15"
  shows "check_seq s k = re_match_valid_aa (replace_U_C (py_upper s))"
proof -
  have "py_slice_to (k + 15) (py_upper s) = py_upper s"
    using assms by (simp add: py_slice_to_def py_upper_def)
  then show ?thesis by (simp add: check_seq_def)
qed

lemma length_process_sequence:
  assumes "0 \<le> max_scan + 15"
  shows "int (length (process_sequence max_scan c)) \<le> max_scan + 15"
  using assms by (simp add: process_sequence_def py_slice_to_def)

text \<open>
  Up to a scan window of 80 the processed sequence fits the validator's default
  window, and the call \<^verbatim>\<open>check_seq(x)\<close> judges it as the window of the run would.
\<close>

lemma check_seq_processed:
  assumes "16 \<le> max_scan" and "max_scan \<le> 80"
  shows "check_seq (process_sequence max_scan c) max_scan =
         check_seq (process_sequence max_scan c) 80"
proof -
  have l: "int (length (process_sequence max_scan c)) \<le> max_scan + 15"
    using assms(1) by (intro length_process_sequence) simp
  then have "int (length (process_sequence max_scan c)) \<le> 80 + 15"
    using assms(2) by simp
  then show ?thesis
    using l by (simp add: check_seq_whole)
qed

lemma survives_iff_not_dropped:
  assumes "16 \<le> max_scan" and "max_scan \<le> 80"
  shows "survives max_scan c = (\<not> dropped max_scan c)"
proof (cases c)
  case (Str s)
  then show ?thesis
    using assms(1)
    by (auto simp: survives_def dropped_def parse_row_def str_split_n1_def isna_def Let_def
        process_sequence_PyNone check_seq_processed [OF assms])
next
  case NaN
  then show ?thesis
    by (simp add: survives_def dropped_def parse_row_def str_split_n1_def isna_def Let_def)
next
  case PyNone
  then show ?thesis
    by (simp add: survives_def dropped_def parse_row_def str_split_n1_def isna_def Let_def)
qed

lemma dropped_no_newline:
  assumes "16 \<le> max_scan" and "LF \<notin> set ident"
  shows "dropped max_scan (Str ident)"
  using assms by (simp add: dropped_def str_split_n1_def isna_def)

lemma process_sequence_blank:
  assumes "set sq \<subseteq> {LF}"
  shows "process_sequence max_scan (Str sq) = []"
proof -
  have "filter (\<lambda>x. x \<noteq> LF) sq = []"
    using assms by (auto simp: filter_empty_conv)
  then show ?thesis
    by (simp add: process_sequence_def replace_newlines_def astype_str_def py_upper_def
        series_replace_U_C_def py_slice_to_def)
qed

lemma dropped_blank_sequence:
  assumes "LF \<notin> set ident" and "set sq \<subseteq> {LF}"
  shows "dropped max_scan (Str (ident @ LF # sq))"
proof -
  have "takeWhile (\<lambda>x. x \<noteq> LF) (ident @ LF # sq) = ident"
    using assms(1) by (induction ident) auto
  moreover have "dropWhile (\<lambda>x. x \<noteq> LF) (ident @ LF # sq) = LF # sq"
    using assms(1) by (induction ident) auto
  ultimately show ?thesis
    using assms(2) by (simp add: dropped_def str_split_n1_def process_sequence_blank)
qed

text \<open>
  C1, at \<^verbatim>\<open>max_scan = 100\<close> and a record of 95 residues \<^verbatim>\<open>A\<close> followed by \<^verbatim>\<open>X\<close>: truncation
  keeps 115 characters, so all 96; the validator, called with its default window of
  95, does not inspect the \<^verbatim>\<open>X\<close>, and the record is kept with it. Called with the window
  of the run, \<^verbatim>\<open>check_seq\<close> rejects the stored sequence.
\<close>

theorem validator_window_is_default:
  "fasta_reader (\<lambda>f. Inr [Str (''id'' @ [LF] @ replicate 95 (CHR ''A'') @ ''X'')]) ''x.fa'' 100
     = Inr ([\<lparr>Accession = Str ''id'', Sequence = replicate 95 (CHR ''A'') @ ''X''\<rparr>], None) \<and>
   check_seq (replicate 95 (CHR ''A'') @ ''X'') 80 \<and>
   \<not> check_seq (replicate 95 (CHR ''A'') @ ''X'') 100"
  by code_simp

text \<open>
  C2, at the record \<^verbatim>\<open>>id\<close>, \<^verbatim>\<open>ACU\<close> with \<^verbatim>\<open>max_scan = 80\<close>: the sequence stored is \<^verbatim>\<open>ACU\<close>, not
  \<^verbatim>\<open>ACC\<close>, since line 53 replaces whole cells equal to \<^verbatim>\<open>U\<close> and not the character.
\<close>

theorem stored_sequence_keeps_U:
  "fasta_reader (\<lambda>f. Inr [Str (''id'' @ [LF] @ ''ACU'')]) ''x.fa'' 80
     = Inr ([\<lparr>Accession = Str ''id'', Sequence = ''ACU''\<rparr>], None) \<and>
   normalized ''ACU'' = ''ACC''"
  by code_simp

text \<open>
  For a scan window from 16 to 80 and a file that parses, the table \<^verbatim>\<open>fasta_reader\<close>
  returns holds, in order, the rows of exactly the blocks for which no drop
  condition holds; and for every scan window from 16 on, a block with an identifier
  and no sequence text is dropped, whether it has no line feed at all or only line
  feeds after the identifier.
\<close>

lemma fasta_reader_drops_upto_80:
  assumes "16 \<le> max_scan" and "max_scan \<le> 80"
    and "read file = Inr cells"
    and "fasta_reader read file max_scan = Inr (final_df, removed)"
  shows "final_df = map (parse_row max_scan) (filter (\<lambda>c. \<not> dropped max_scan c) cells)"
proof -
  have "filter (survives max_scan) cells = filter (\<lambda>c. \<not> dropped max_scan c) cells"
    by (rule filter_cong) (simp_all add: survives_iff_not_dropped [OF assms(1,2)])
  then show ?thesis
    using fasta_reader_Inr(1) [OF assms(4) assms(3)] by simp
qed

text \<open>
  C5, at \<^verbatim>\<open>max_scan = 100\<close> and the record of 95 residues \<^verbatim>\<open>A\<close> followed by \<^verbatim>\<open>X\<close>: a drop
  condition holds, the validator with the window of the run rejects the processed
  sequence, so no block of the file is free of drop conditions; yet the table
  \<^verbatim>\<open>fasta_reader\<close> returns holds the record's row and nothing is reported as removed.
\<close>

theorem fasta_reader_keeps_rejected:
  "dropped 100 long_record \<and>
   filter (\<lambda>c. \<not> dropped 100 c) [long_record] = [] \<and>
   fasta_reader (\<lambda>f. Inr [long_record]) ''x.fa'' 100 =
     Inr ([\<lparr>Accession = Str ''id'', Sequence = replicate 95 (CHR ''A'') @ ''X''\<rparr>], None)"
  by code_simp

text \<open>
  So the table is not, for every scan window of at least 16, the rows of the blocks
  without a drop condition.
\<close>

theorem fasta_reader_keeps_rejected_witness:
  "\<not> (\<forall>read file max_scan cells final_df removed.
         16 \<le> max_scan \<and> read file = Inr cells \<and>
         fasta_reader read file max_scan = Inr (final_df, removed) \<longrightarrow>
         final_df = map (parse_row max_scan) (filter (\<lambda>c. \<not> dropped max_scan c) cells))"
proof
  assume a: "\<forall>read file max_scan cells final_df removed.
         16 \<le> max_scan \<and> read file = Inr cells \<and>
         fasta_reader read file max_scan = Inr (final_df, removed) \<longrightarrow>
         final_df = map (parse_row max_scan) (filter (\<lambda>c. \<not> dropped max_scan c) cells)"
  have e: "filter (\<lambda>c. \<not> dropped 100 c) [long_record] = []"
    using fasta_reader_keeps_rejected by (rule conjunct1 [OF conjunct2])
  have h: "fasta_reader (\<lambda>f. Inr [long_record]) ''x.fa'' 100 =
     Inr ([\<lparr>Accession = Str ''id'', Sequence = replicate 95 (CHR ''A'') @ ''X''\<rparr>], None)"
    using fasta_reader_keeps_rejected by (rule conjunct2 [OF conjunct2])
  have "[\<lparr>Accession = Str ''id'', Sequence = replicate 95 (CHR ''A'') @ ''X''\<rparr>] =
        map (parse_row 100) (filter (\<lambda>c. \<not> dropped 100 c) [long_record])"
    using a [rule_format, of 100 "\<lambda>f. Inr [long_record]" "''x.fa''" "[long_record]"] h
    by simp
  with e show False by simp
qed

subsection \<open>The command line\<close>

text \<open>
  C7, as amended: before any input is read, the run is rejected, with no I/O at
  all, whenever the scan window given is not an integer or is below 16, and whenever
  the worker count given is not an integer. A worker count that is an integer is
  accepted whatever its value, also below 1. An accepted scan window is at least 16.
\<close>

theorem configuration_rejected:
  "(rejected_max_scan cl \<or> rejected_ncores cl \<longrightarrow>
      (\<exists>msg. script w cl = ([], Inl (SystemExit msg)))) \<and>
   (\<forall>n v p. opt_ncores cl = Some n \<and> py_int n = Some v \<and> \<not> rejected_max_scan cl \<and>
      opt_path cl = Some p \<longrightarrow>
      (\<exists>a. get_args (cpu_count w) cl = Inr a \<and> args_ncores a = v)) \<and>
   (\<forall>a. get_args (cpu_count w) cl = Inr a \<longrightarrow> 16 \<le> args_max_scan a)"
  by (auto simp: script_def get_args_def rejected_max_scan_def rejected_ncores_def
      check_max_scan_def split: option.splits sum.splits if_splits)

text \<open>
  The claim as stated fails at \<^verbatim>\<open>-p seqs -n 0\<close>: the worker count 0 is accepted, and the
  run goes on to initialise the pool with 0 workers and to list the directory.
\<close>

theorem zero_workers_accepted:
  "get_args 8 zero_workers =
     Inr \<lparr>args_path = ''seqs'', args_output = ''result'', args_max_scan = 80,
          args_ncores = 0, args_quiet = False\<rparr> \<and>
   script empty_world zero_workers = ([Initialize 0, Glob ''seqs''], Inr ())"
  by (simp add: get_args_def zero_workers_def script_def empty_world_def py_int_def py_strip_def
      py_isspace_def py_nat_def digit_of_def)

theorem configuration_rejected_witness:
  "rejected_max_scan small_window \<and>
   (\<exists>msg. script empty_world small_window = ([], Inl (SystemExit msg))) \<and>
   (\<exists>a. get_args 8 zero_workers = Inr a \<and> args_ncores a = 0)"
proof -
  have r: "rejected_max_scan small_window"
    by (simp add: rejected_max_scan_def small_window_def py_int_def py_strip_def
        py_isspace_def py_nat_def digit_of_def)
  have z: "opt_ncores zero_workers = Some ''0'' \<and> py_int ''0'' = Some 0 \<and>
           \<not> rejected_max_scan zero_workers \<and> opt_path zero_workers = Some ''seqs''"
    by (simp add: rejected_max_scan_def zero_workers_def py_int_def py_strip_def
        py_isspace_def py_nat_def digit_of_def)
  have c: "cpu_count empty_world = 8"
    by (simp add: empty_world_def)
  from r configuration_rejected [of small_window empty_world]
  have "\<exists>msg. script empty_world small_window = ([], Inl (SystemExit msg))"
    by blast
  moreover from z configuration_rejected [of zero_workers empty_world]
  have "\<exists>a. get_args (cpu_count empty_world) zero_workers = Inr a \<and> args_ncores a = 0"
    by blast
  ultimately show ?thesis using r c by simp
qed

subsection \<open>Attrition\<close>

text \<open>
  C6: for every file that parses, the table holds exactly one row per surviving
  record, in order; the survivors and the records removed add up to the records
  parsed; and the count the parser reports is the number parsed minus the number
  surviving. The parser prints that count only when it is not zero: when it prints
  nothing, every record survived. With ten records of which three fail validation
  the count reported is 3 and the table has 7 rows.
\<close>

theorem fasta_reader_attrition:
  assumes "read file = Inr cells"
    and "fasta_reader read file max_scan = Inr (final_df, removed)"
  shows "final_df = map (parse_row max_scan) (filter (survives max_scan) cells) \<and>
         length final_df + length (filter (\<lambda>c. \<not> survives max_scan c) cells) = length cells \<and>
         (case removed of
            None \<Rightarrow> length final_df = length cells
          | Some n \<Rightarrow> n = length cells - length final_df \<and> 0 < n \<and>
              n = length (filter (\<lambda>c. \<not> survives max_scan c) cells))"
proof -
  note r = fasta_reader_Inr [OF assms(2) assms(1)]
  have len: "length final_df = length (filter (survives max_scan) cells)"
    using r(1) by simp
  have total: "length final_df + length (filter (\<lambda>c. \<not> survives max_scan c) cells) = length cells"
    using len sum_length_filter_compl [of "survives max_scan" cells] by simp
  have "case removed of
          None \<Rightarrow> length final_df = length cells
        | Some n \<Rightarrow> n = length cells - length final_df \<and> 0 < n \<and>
            n = length (filter (\<lambda>c. \<not> survives max_scan c) cells)"
    using r(2) total by (simp split: if_splits)
  with r(1) total show ?thesis by blast
qed

theorem fasta_reader_attrition_witness:
  "length cells10 = 10 \<and>
   fasta_reader (\<lambda>f. Inr cells10) ''ten.fa'' 80 = Inr (rows7, Some 3) \<and>
   length rows7 = 7 \<and>
   rows7 = map (parse_row 80) (filter (survives 80) cells10) \<and>
   length (filter (\<lambda>c. \<not> survives 80 c) cells10) = 3"
proof -
  have r: "(\<lambda>f. Inr cells10) ''ten.fa'' = Inr cells10" by simp
  have h: "fasta_reader (\<lambda>f. Inr cells10) ''ten.fa'' 80 = Inr (rows7, Some 3)"
    by code_simp
  have l: "length cells10 = 10" by (simp add: cells10_def)
  have l7: "length rows7 = 7" by (simp add: rows7_def)
  note t = fasta_reader_attrition [OF r h]
  from t have t1: "rows7 = map (parse_row 80) (filter (survives 80) cells10)"
    by (rule conjunct1)
  from t have "length (filter (\<lambda>c. \<not> survives 80 c) cells10) = 3"
    by simp
  with h l l7 t1 show ?thesis by blast
qed

subsection \<open>The per-record prediction\<close>

lemma round_to_ex: "round_to (2 / 3) 2 = 67 / 100" "round_to (1 / 2) 2 = 1 / 2"
  by (simp_all add: round_to_def round_def)

lemma run_stages_cases:
  assumes "primary cl seq max_scan = Inr p"
  shows "run_stages cl seq max_scan =
     (let obj1 = (RAZOR seq max_scan)\<lparr>y_scores := res_y_scores p, preds := res_preds p,
                   c_scores := res_c_scores p, cleavage_sites := res_cleavage_sites p,
                   final_cleavage := res_final_cleavage p,
                   final_score_sp := res_final_score_sp p\<rparr>
      in case secondary cl seq max_scan of
           Inl e \<Rightarrow> if e = TypeError then Inr obj1 else Inl e
         | Inr r \<Rightarrow>
             (let obj2 = obj1\<lparr>fungi_scores := res_scores r, fungi_preds := res_stage_preds r,
                               final_score_fungi := res_final_score r\<rparr>
              in case tertiary cl seq max_scan of
                   Inl e \<Rightarrow> if e = TypeError then Inr obj2 else Inl e
                 | Inr t \<Rightarrow> Inr (obj2\<lparr>toxin_scores := res_scores t,
                                         toxin_preds := res_stage_preds t,
                                         final_score_toxin := res_final_score t\<rparr>)))"
  using assms
  by (simp add: run_stages_def predict_def fungi_def toxin_def RAZOR_def Let_def
      split: sum.splits)

text \<open>
  C9: of the twelve fields exactly two are rounded to 2 decimals, field 1, item by
  item, and field 6; every other field, the secondary and tertiary aggregates of
  fields 9 and 12 among them, is the classifier's value as it is. Exchanging the
  rounding function changes fields 1 and 6 and nothing else.
\<close>

theorem razor_predict_rounds_two_fields:
  assumes "razor_predict cl around seq max_scan = Inr b"
  shows "\<exists>obj. run_stages cl seq max_scan = Inr obj \<and>
           Y_score b = map (\<lambda>y. around y 2) (y_scores obj) \<and>
           SP_score b = around (final_score_sp obj) 2 \<and>
           SP_Prediction b = preds obj \<and> Max_C b = c_scores obj \<and>
           Probable_Cleavage_after b = cleavage_sites obj \<and>
           Cleavage_after_residue b = (case final_cleavage obj of [] \<Rightarrow> 0 | c # cs \<Rightarrow> c) \<and>
           Fungi_Scores b = fungi_scores obj \<and> Fungi_Prediction b = fungi_preds obj \<and>
           Fungi_scores_Median b = final_score_fungi obj \<and>
           Toxin_Scores b = toxin_scores obj \<and> Toxin_Prediction b = toxin_preds obj \<and>
           Toxin_scores_Median b = final_score_toxin obj \<and>
           (\<forall>around'. razor_predict cl around' seq max_scan =
              Inr (b\<lparr>Y_score := map (\<lambda>y. around' y 2) (y_scores obj),
                      SP_score := around' (final_score_sp obj) 2\<rparr>))"
proof -
  from assms obtain obj where o: "run_stages cl seq max_scan = Inr obj"
    and b: "b = unpack around obj"
    by (auto simp: razor_predict_def split: sum.splits)
  show ?thesis
    by (rule exI [of _ obj]) (simp add: o b razor_predict_def unpack_def Let_def)
qed

theorem razor_predict_rounds_two_fields_witness:
  "razor_predict full_classifier round_to ''ACD'' 80 =
     Inr \<lparr>Y_score = [67 / 100, 1 / 2], SP_Prediction = [0, 1], Max_C = [3 / 8],
          Probable_Cleavage_after = [21, 25], Cleavage_after_residue = 21, SP_score = 67 / 100,
          Fungi_Scores = [2 / 3], Fungi_Prediction = [1], Fungi_scores_Median = 2 / 3,
          Toxin_Scores = [1 / 3], Toxin_Prediction = [0], Toxin_scores_Median = 1 / 3\<rparr> \<and>
   razor_predict full_classifier (\<lambda>x d. x) ''ACD'' 80 =
     Inr \<lparr>Y_score = [2 / 3, 1 / 2], SP_Prediction = [0, 1], Max_C = [3 / 8],
          Probable_Cleavage_after = [21, 25], Cleavage_after_residue = 21, SP_score = 2 / 3,
          Fungi_Scores = [2 / 3], Fungi_Prediction = [1], Fungi_scores_Median = 2 / 3,
          Toxin_Scores = [1 / 3], Toxin_Prediction = [0], Toxin_scores_Median = 1 / 3\<rparr>"
proof -
  have p: "primary full_classifier ''ACD'' 80 =
      Inr \<lparr>res_y_scores = [2 / 3, 1 / 2], res_preds = [0, 1],
           res_c_scores = [3 / 8], res_cleavage_sites = [21, 25],
           res_final_cleavage = [21], res_final_score_sp = 2 / 3\<rparr>"
    by (simp add: full_classifier_def)
  have s: "secondary full_classifier ''ACD'' 80 =
      Inr \<lparr>res_scores = [2 / 3], res_stage_preds = [1], res_final_score = 2 / 3\<rparr>"
    by (simp add: full_classifier_def)
  have t: "tertiary full_classifier ''ACD'' 80 =
      Inr \<lparr>res_scores = [1 / 3], res_stage_preds = [0], res_final_score = 1 / 3\<rparr>"
    by (simp add: full_classifier_def)
  have h: "razor_predict full_classifier round_to ''ACD'' 80 =
     Inr \<lparr>Y_score = [67 / 100, 1 / 2], SP_Prediction = [0, 1], Max_C = [3 / 8],
          Probable_Cleavage_after = [21, 25], Cleavage_after_residue = 21, SP_score = 67 / 100,
          Fungi_Scores = [2 / 3], Fungi_Prediction = [1], Fungi_scores_Median = 2 / 3,
          Toxin_Scores = [1 / 3], Toxin_Prediction = [0], Toxin_scores_Median = 1 / 3\<rparr>"
    by (simp add: razor_predict_def run_stages_cases [OF p] s t unpack_def RAZOR_def Let_def
        round_to_ex)
  from razor_predict_rounds_two_fields [OF h]
  obtain obj where o: "run_stages full_classifier ''ACD'' 80 = Inr obj"
    and a: "\<forall>around'. razor_predict full_classifier around' ''ACD'' 80 =
              Inr (\<lparr>Y_score = [67 / 100, 1 / 2], SP_Prediction = [0, 1], Max_C = [3 / 8],
          Probable_Cleavage_after = [21, 25], Cleavage_after_residue = 21, SP_score = 67 / 100,
          Fungi_Scores = [2 / 3], Fungi_Prediction = [1], Fungi_scores_Median = 2 / 3,
          Toxin_Scores = [1 / 3], Toxin_Prediction = [0], Toxin_scores_Median = 1 / 3\<rparr>
                \<lparr>Y_score := map (\<lambda>y. around' y 2) (y_scores obj),
                      SP_score := around' (final_score_sp obj) 2\<rparr>)"
    by blast
  have obj: "y_scores obj = [2 / 3, 1 / 2]" "final_score_sp obj = 2 / 3"
    using o by (auto simp: run_stages_cases [OF p] s t RAZOR_def Let_def)
  from a [rule_format, of "\<lambda>x d. x"] obj h show ?thesis by simp
qed

end
